theory Spec2Isabelle
  imports Complex_Main
begin

section \<open>Players and the leaderboard document (core/logic.py)\<close>

text \<open>
  A \<open>Player\<close> object has four attributes. An entry of the \<open>"STATS"\<close> array of
  \<open>players.json\<close> is a dictionary with the same four keys, so one record type serves for
  both. Python integers are unbounded: \<open>int\<close>.
\<close>

record Player =
  user_id :: int
  money :: int
  level :: int
  league :: string

text \<open>
  \<open>Player.__init__(user_id, money=0, level=0, league="")\<close>. The body assigns
  \<open>self.level = 0\<close>: the \<open>level\<close> argument is accepted and not read.
\<close>

definition Player_init :: "int \<Rightarrow> int \<Rightarrow> int \<Rightarrow> string \<Rightarrow> Player" where
  "Player_init uid m lvl lg = \<lparr>user_id = uid, money = m, level = 0, league = lg\<rparr>"

text \<open>
  \<open>Player.level_check\<close>: the \<open>match\<close> statement tries its guarded cases from top to
  bottom; the wildcard case is last. \<open>league_of\<close> is the league the statement assigns for a
  level, \<open>level_check\<close> the update of the object.
\<close>

definition league_of :: "int \<Rightarrow> string" where
  "league_of lv =
    (if 0 < lv \<and> lv < 1000 then ''Minnow''
     else if 1000 \<le> lv \<and> lv < 3000 then ''Guppy''
     else if 3000 \<le> lv \<and> lv < 5000 then ''Pond''
     else if 5000 \<le> lv \<and> lv < 10000 then ''River''
     else if 10000 \<le> lv \<and> lv < 15000 then ''Lake''
     else if 15000 \<le> lv \<and> lv < 20000 then ''Stream''
     else if 20000 \<le> lv \<and> lv < 30000 then ''Bay''
     else if 30000 \<le> lv \<and> lv < 40000 then ''Ocean''
     else if 40000 \<le> lv \<and> lv < 50000 then ''Deep Sea''
     else if 50000 \<le> lv \<and> lv < 70000 then ''Trophy''
     else if 70000 \<le> lv \<and> lv < 100000 then ''Champion''
     else if lv \<ge> 100000 then ''Legendary''
     else ''Unranked'')"

definition level_check :: "Player \<Rightarrow> Player" where
  "level_check p = p\<lparr>league := league_of (level p)\<rparr>"

text \<open>
  The state of the file \<open>players.json\<close>: absent, present with content that
  \<open>json.load\<close> rejects, or present with a document \<open>{"STATS": [...]}\<close>, of which
  the array is kept in its order. A decodable document is taken to have this shape
  (an object with the key \<open>"STATS"\<close> whose entries carry the four keys).
\<close>

datatype players_file = NoFile | BadJSON | Doc "Player list"

text \<open>The exceptions of Python that the modelled code can raise.\<close>

datatype py_error =
    AssertionError
  | NameError
  | AttributeError
  | JSONDecodeError
  | FileNotFoundError

text \<open>
  \<open>Player.load_from_leaderboard\<close>: the loop stops at the first entry with the player's
  id and copies its level, money and league. With no such entry the object is left as it
  was. \<open>FileNotFoundError\<close> and \<open>JSONDecodeError\<close> are caught and printed.
\<close>

fun find_user :: "int \<Rightarrow> Player list \<Rightarrow> Player option" where
  "find_user uid [] = None"
| "find_user uid (user # rest) =
     (if user_id user = uid then Some user else find_user uid rest)"

definition load_from_leaderboard :: "Player \<Rightarrow> players_file \<Rightarrow> Player" where
  "load_from_leaderboard self f =
    (case f of
       NoFile \<Rightarrow> self
     | BadJSON \<Rightarrow> self
     | Doc stats \<Rightarrow>
         (case find_user (user_id self) stats of
            None \<Rightarrow> self
          | Some user \<Rightarrow> self\<lparr>level := level user, money := money user, league := league user\<rparr>))"

text \<open>
  \<open>Player.save_to_leaderboard\<close>: an absent file is first created with an empty
  \<open>"STATS"\<close> array. The document is then read (a \<open>JSONDecodeError\<close> is not caught
  here), the first entry with the player's id is overwritten field by field and
  \<open>user_found\<close> set, or else \<open>new_entry\<close> is appended; the whole document is written
  back.
\<close>

fun update_user :: "Player \<Rightarrow> Player list \<Rightarrow> bool \<times> Player list" where
  "update_user self [] = (False, [])"
| "update_user self (user # rest) =
     (if user_id user = user_id self
      then (True, user\<lparr>money := money self, level := level self, league := league self\<rparr> # rest)
      else (case update_user self rest of (user_found, rest') \<Rightarrow> (user_found, user # rest')))"

definition save_to_leaderboard :: "Player \<Rightarrow> players_file \<Rightarrow> py_error + players_file" where
  "save_to_leaderboard self f =
    (case (if f = NoFile then Doc [] else f) of
       NoFile \<Rightarrow> Inl FileNotFoundError
     | BadJSON \<Rightarrow> Inl JSONDecodeError
     | Doc stats \<Rightarrow>
         (let new_entry = \<lparr>user_id = user_id self, money = money self,
                           level = level self, league = league self\<rparr>
          in case update_user self stats of
               (user_found, stats') \<Rightarrow>
                 Inr (Doc (if \<not> user_found then stats' @ [new_entry] else stats'))))"

text \<open>
  \<open>str.lower\<close>, on the letters that matter for the comparisons below: an ASCII capital
  becomes its small letter, every other character of the 8-bit \<open>char\<close> type is kept
  (no character outside \<open>A\<close>..\<open>Z\<close> of that range lowers to an ASCII letter).
\<close>

definition lower_char :: "char \<Rightarrow> char" where
  "lower_char c =
    (let n = (of_char c :: nat) in if 65 \<le> n \<and> n \<le> 90 then char_of (n + 32) else c)"

definition lower :: "string \<Rightarrow> string" where
  "lower s = map lower_char s"

text \<open>
  \<open>reset_fisher(player_tag, state)\<close>. The function returns \<open>True\<close> or \<open>None\<close>:
  \<open>Some True\<close> and \<open>None\<close> here. \<open>reset_loop\<close> is the \<open>for ... else\<close> statement:
  \<open>Some stats'\<close> when the loop leaves by \<open>break\<close> with the entry changed in place,
  \<open>None\<close> when the function returns \<open>None\<close> from inside the loop (the id matches, the
  state is neither money nor level) or from the \<open>else\<close> clause (no entry has the id).
  In both of these the file is closed unwritten. Any exception (the file absent, the
  content undecodable) is caught and gives \<open>None\<close> too.
\<close>

fun reset_loop :: "int \<Rightarrow> string \<Rightarrow> Player list \<Rightarrow> Player list option" where
  "reset_loop player_tag state [] = None"
| "reset_loop player_tag state (user # rest) =
     (if user_id user = player_tag then
        (if lower state = ''money'' then Some (user\<lparr>money := 0\<rparr> # rest)
         else if lower state \<in> set [''level'', ''levels''] then Some (user\<lparr>level := 0\<rparr> # rest)
         else None)
      else map_option ((#) user) (reset_loop player_tag state rest))"

definition reset_fisher :: "int \<Rightarrow> string \<Rightarrow> players_file \<Rightarrow> bool option \<times> players_file" where
  "reset_fisher player_tag state f =
    (case f of
       NoFile \<Rightarrow> (None, NoFile)
     | BadJSON \<Rightarrow> (None, BadJSON)
     | Doc stats \<Rightarrow>
         (case reset_loop player_tag state stats of
            None \<Rightarrow> (None, Doc stats)
          | Some stats' \<Rightarrow> (Some True, Doc stats')))"

text \<open>
  \<open>delete_all_players()\<close>: the file is opened with mode \<open>"r+"\<close>, which does not create
  it; the exception for an absent or undecodable file is caught and the function returns
  \<open>None\<close>. Otherwise the array is replaced by the empty one and the document written.
\<close>

definition delete_all_players :: "players_file \<Rightarrow> bool option \<times> players_file" where
  "delete_all_players f =
    (case f of
       NoFile \<Rightarrow> (None, NoFile)
     | BadJSON \<Rightarrow> (None, BadJSON)
     | Doc stats \<Rightarrow> (Some True, Doc []))"

section \<open>Loot, the rarity table and the catalogue (core/logic.py)\<close>

text \<open>
  Python floats are modelled as exact rationals: the probabilities, the weights and the
  products computed from them are the decimal numbers the source writes, with no binary
  rounding. Every random number that the source takes from the module \<open>random\<close> is an
  argument of the function that draws it.
\<close>

record Loot =
  name :: string
  rarity :: string
  description :: string
  "value" :: int
  xp_loot :: int
  weight :: rat

text \<open>\<open>Loot.__init__(name, rarity, description)\<close> with the three defaults.\<close>

definition Loot_init :: "string \<Rightarrow> string \<Rightarrow> string \<Rightarrow> Loot" where
  "Loot_init nm r d =
    \<lparr>name = nm, rarity = r, description = d, value = 0, xp_loot = 0, weight = 0\<rparr>"

text \<open>
  \<open>random.randint(a, b)\<close> is \<open>a + randbelow(b - a + 1)\<close>: the raw draw \<open>u\<close> is
  reduced into the range. \<open>random.uniform(a, b)\<close> is \<open>a + (b - a) * random()\<close> with
  \<open>random()\<close> in \<open>[0, 1)\<close>, here the argument \<open>r\<close>. \<open>random.choice(seq)\<close> is
  \<open>seq[randbelow(len(seq))]\<close>.
\<close>

definition randint :: "int \<Rightarrow> int \<Rightarrow> nat \<Rightarrow> int" where
  "randint a b u = a + int (u mod nat (b - a + 1))"

definition uniform :: "rat \<Rightarrow> rat \<Rightarrow> rat \<Rightarrow> rat" where
  "uniform a b r = a + (b - a) * r"

text \<open>
  The builtin \<open>round\<close>: with one argument it rounds to the nearest integer, a tie to the
  even one; \<open>round(x, 2)\<close> does the same at the second decimal.
\<close>

definition py_round :: "rat \<Rightarrow> int" where
  "py_round x =
    (let f = \<lfloor>x\<rfloor>; d = x - of_int f
     in if d < 1 / 2 then f
        else if d > 1 / 2 then f + 1
        else if even f then f else f + 1)"

definition py_round2 :: "rat \<Rightarrow> rat" where
  "py_round2 x = of_int (py_round (x * 100)) / 100"

text \<open>
  The three rollers of \<open>Loot\<close>, each a \<open>match\<close> on the rarity in the order of the
  source, with 0 for a rarity that no case names. Each returns the number it rolled; the
  source also stores it in the attribute of the same name, which nothing reads.
\<close>

definition value_loot_algo :: "Loot \<Rightarrow> nat \<Rightarrow> int" where
  "value_loot_algo self u =
    (if rarity self = ''Common'' then randint 10 50 u
     else if rarity self = ''Uncommon'' then randint 51 150 u
     else if rarity self = ''Rare'' then randint 151 500 u
     else if rarity self = ''Epic'' then randint 501 1500 u
     else if rarity self = ''Supreme'' then randint 1501 3000 u
     else if rarity self = ''Mythical'' then randint 3001 5000 u
     else if rarity self = ''Legendary'' then randint 5001 10000 u
     else if rarity self = ''Trash'' then randint 1 9 u
     else 0)"

definition xp_loot_algo :: "Loot \<Rightarrow> nat \<Rightarrow> int" where
  "xp_loot_algo self u =
    (if rarity self = ''Common'' then randint 50 100 u
     else if rarity self = ''Uncommon'' then randint 101 250 u
     else if rarity self = ''Rare'' then randint 251 500 u
     else if rarity self = ''Epic'' then randint 501 1000 u
     else if rarity self = ''Supreme'' then randint 1001 2000 u
     else if rarity self = ''Mythical'' then randint 2001 3500 u
     else if rarity self = ''Legendary'' then randint 3501 5000 u
     else if rarity self = ''Trash'' then 0
     else 0)"

definition weight_algo :: "Loot \<Rightarrow> rat \<Rightarrow> rat" where
  "weight_algo self r =
    (if rarity self = ''Common'' then py_round2 (uniform 1 5 r)
     else if rarity self = ''Uncommon'' then py_round2 (uniform (51 / 10) 10 r)
     else if rarity self = ''Rare'' then py_round2 (uniform (101 / 10) 20 r)
     else if rarity self = ''Epic'' then py_round2 (uniform (201 / 10) 30 r)
     else if rarity self = ''Supreme'' then py_round2 (uniform (301 / 10) 40 r)
     else if rarity self = ''Mythical'' then py_round2 (uniform (401 / 10) 50 r)
     else if rarity self = ''Legendary'' then py_round2 (uniform (501 / 10) 60 r)
     else if rarity self = ''Trash'' then py_round2 (uniform (1 / 10) (9 / 10) r)
     else 0)"

text \<open>
  \<open>RARITY_PROBABILITIES\<close>: a dictionary is walked in the order of its insertion, so it
  is an association list.
\<close>

definition RARITY_PROBABILITIES :: "(string \<times> rat) list" where
  "RARITY_PROBABILITIES =
    [(''Trash'', 239 / 1000),
     (''Common'', 25 / 100),
     (''Uncommon'', 20 / 100),
     (''Rare'', 10 / 100),
     (''Epic'', 8 / 100),
     (''Supreme'', 8 / 100),
     (''Mythical'', 5 / 100),
     (''Legendary'', 1 / 1000)]"

text \<open>\<open>CATCHES\<close>, the catalogue, in the order of the source.\<close>

definition CATCHES :: "Loot list" where
  "CATCHES =
    [
     Loot_init ''Plastic Bag'' ''Trash''
       ''A discarded plastic bag floating in the water.'',
     Loot_init ''Old Shoe'' ''Trash''
       ''An old, worn-out shoe that's been thrown into the water.'',
     Loot_init ''Broken Bottle'' ''Trash''
       ''A shattered glass bottle, lost and forgotten.'',
     Loot_init ''Rusty Can'' ''Trash''
       ''A rusty can, once holding something edible.'',
     Loot_init ''Fishing Line'' ''Trash''
       ''A tangled mess of old fishing line.'',
     Loot_init ''Wooden Plank'' ''Trash''
       ''A piece of driftwood, worn smooth by the water.'',
     Loot_init ''Empty Can'' ''Trash''
       ''An empty can, discarded and forgotten.'',
     Loot_init ''Discarded Net'' ''Trash''
       ''An old fishing net, tangled and useless.'',
     Loot_init ''Torn Bag'' ''Trash''
       ''A bag ripped apart and left to float.'',
     Loot_init ''Worn Tire'' ''Trash''
       ''A worn-out tire, floating aimlessly.'',
     Loot_init ''Goldfish'' ''Common''
       ''A small, shiny goldfish. Commonly found in ponds.'',
     Loot_init ''Bluegill'' ''Common''
       ''A small, panfish with a blueish tint, found in freshwater lakes.'',
     Loot_init ''Sunfish'' ''Common''
       ''A small, colorful fish often found in ponds and lakes.'',
     Loot_init ''Perch'' ''Common''
       ''A striped fish found in lakes and rivers.'',
     Loot_init ''Tilapia'' ''Common''
       ''A freshwater fish known for its mild flavor.'',
     Loot_init ''Carp'' ''Common''
       ''A large fish found in many rivers and ponds.'',
     Loot_init ''Bass'' ''Common''
       ''A popular sport fish found in lakes and rivers.'',
     Loot_init ''Trout'' ''Common''
       ''A common fish found in clear, cold streams and rivers.'',
     Loot_init ''Catfish'' ''Common''
       ''A bottom-dwelling fish with whisker-like barbels.'',
     Loot_init ''Pike'' ''Common''
       ''A long, predatory fish found in freshwater lakes.'',
     Loot_init ''Catfish'' ''Uncommon''
       ''A large fish with a whiskery face. Often found in rivers.'',
     Loot_init ''Largemouth Bass'' ''Uncommon''
       ''A predatory fish known for its large mouth and fighting spirit.'',
     Loot_init ''Walleye'' ''Uncommon''
       ''A freshwater fish with large eyes, known for its sharp teeth.'',
     Loot_init ''Smallmouth Bass'' ''Uncommon''
       ''A fish known for its fighting ability and small mouth.'',
     Loot_init ''Northern Pike'' ''Uncommon''
       ''A predatory fish with sharp teeth and a long body.'',
     Loot_init ''Paddlefish'' ''Uncommon''
       ''A fish known for its long, paddle-like snout.'',
     Loot_init ''Muskellunge'' ''Uncommon''
       ''A large, elusive predator found in North American lakes.'',
     Loot_init ''Steelhead Trout'' ''Uncommon''
       ''A migratory fish known for its strength and fighting ability.'',
     Loot_init ''Sauger'' ''Uncommon''
       ''A fish closely related to the walleye, found in rivers and lakes.'',
     Loot_init ''Lake Sturgeon'' ''Uncommon''
       ''A prehistoric fish known for its bony plates and long lifespan.'',
     Loot_init ''Rainbow Trout'' ''Rare''
       ''A colorful trout with vibrant stripes. A rare catch in clear lakes.'',
     Loot_init ''Arapaima'' ''Rare''
       ''A giant fish native to the Amazon River, known for its size.'',
     Loot_init ''Tiger Trout'' ''Rare''
       ''A hybrid trout known for its striking pattern.'',
     Loot_init ''Golden Dorado'' ''Rare''
       ''A powerful predator with a golden sheen.'',
     Loot_init ''Grouper'' ''Rare''
       ''A large fish with a robust body, found in tropical waters.'',
     Loot_init ''Rohu'' ''Rare''
       ''A large freshwater fish native to South Asia.'',
     Loot_init ''Napoleon Wrasse'' ''Rare''
       ''A large, colorful fish found in the Indo-Pacific region.'',
     Loot_init ''Red Drum'' ''Rare''
       ''A prized fish known for its distinctive red coloration.'',
     Loot_init ''Swordfish'' ''Rare''
       ''A large fish known for its long, sword-like bill.'',
     Loot_init ''Bluefin Tuna'' ''Rare''
       ''A large, fast tuna known for its blue coloration and high value.'',
     Loot_init ''Goliath Grouper'' ''Epic''
       ''A massive, intimidating fish. Known for its strength and size.'',
     Loot_init ''Manta Ray'' ''Epic''
       ''A large, graceful ray known for its wide wingspan.'',
     Loot_init ''Giant Squid'' ''Epic''
       ''A colossal squid known for its size and elusive nature.'',
     Loot_init ''Koi Fish'' ''Epic''
       ''A large ornamental fish known for its vibrant colors and patterns.'',
     Loot_init ''Great White Shark'' ''Epic''
       ''A formidable predator known for its size and power.'',
     Loot_init ''Orca'' ''Epic''
       ''A powerful marine mammal known for its intelligence and hunting skills.'',
     Loot_init ''Hammerhead Shark'' ''Epic''
       ''A shark known for its distinctive hammer-shaped head.'',
     Loot_init ''Beluga Sturgeon'' ''Epic''
       ''A rare sturgeon known for its large size and valuable caviar.'',
     Loot_init ''Blue Marlin'' ''Epic''
       ''A large, fast fish known for its impressive bill and fighting ability.'',
     Loot_init ''Megalodon Tooth'' ''Epic''
       ''A fossilized tooth from the ancient and massive Megalodon shark.'',
     Loot_init ''BoomFish'' ''Supreme''
       ''BadaBOOOM.'',
     Loot_init ''Electra'' ''Supreme''
       ''A mythical fish said to harness the power of lightning.'',
     Loot_init ''Inferno Fish'' ''Supreme''
       ''A fish that supposedly burns with the fire of a thousand suns.'',
     Loot_init ''Frost Dragon Fish'' ''Supreme''
       ''A fish from the icy realms, known for its freezing breath.'',
     Loot_init ''Celestial Koi'' ''Supreme''
       ''A koi with scales that sparkle like the night sky.'',
     Loot_init ''Tornado Fish'' ''Supreme''
       ''A fish said to create whirlwinds in the water.'',
     Loot_init ''Vortex Eel'' ''Supreme''
       ''An eel known for its ability to create whirlpools.'',
     Loot_init ''Phantom Ray'' ''Supreme''
       ''A ray that appears and disappears like a ghost.'',
     Loot_init ''Storm Shark'' ''Supreme''
       ''A shark known to accompany thunderstorms.'',
     Loot_init ''Phoenix Fish'' ''Supreme''
       ''A mythical fish said to rise from the ashes.'',
     Loot_init ''Diamond Fish'' ''Mythical''
       ''That is Pricy.'',
     Loot_init ''Leviathan'' ''Mythical''
       ''A colossal sea creature from ancient legends.'',
     Loot_init ''Kraken'' ''Mythical''
       ''A giant squid-like creature feared by sailors.'',
     Loot_init ''Hydra'' ''Mythical''
       ''A multi-headed serpent with regenerative abilities.'',
     Loot_init ''Triton's Trident Fish'' ''Mythical''
       ''A fish said to be blessed by the god of the sea.'',
     Loot_init ''Mermaid's Tear'' ''Mythical''
       ''A gem said to be the tear of a mermaid, found in the sea.'',
     Loot_init ''Eldritch Whale'' ''Mythical''
       ''A whale from deep, dark corners of the ocean.'',
     Loot_init ''Abyssal Fish'' ''Mythical''
       ''A fish from the deepest, darkest depths of the sea.'',
     Loot_init ''Celestial Jellyfish'' ''Mythical''
       ''A glowing jellyfish said to be a gift from the stars.'',
     Loot_init ''Astral Shark'' ''Mythical''
       ''A shark with a celestial pattern across its body.'',
     Loot_init ''Dragonfish'' ''Legendary''
       ''A mythical fish with scales that shimmer like dragon scales. Extremely rare and valuable.'',
     Loot_init ''Kraken'' ''Legendary''
       ''A legendary sea monster known for its immense size and power.'',
     Loot_init ''Poseidon's Trident'' ''Legendary''
       ''A powerful trident said to be wielded by the god of the sea.'',
     Loot_init ''Phoenix Fish'' ''Legendary''
       ''A fish that rises from the ashes, said to bring good fortune.'',
     Loot_init ''Leviathan'' ''Legendary''
       ''An ancient sea creature of immense size and strength.'',
     Loot_init ''Golden Sea Serpent'' ''Legendary''
       ''A rare and majestic sea serpent covered in golden scales.'',
     Loot_init ''Eldritch Kraken'' ''Legendary''
       ''A monstrous kraken from the darkest depths of the ocean.'',
     Loot_init ''Celestial Dragonfish'' ''Legendary''
       ''A dragonfish with celestial powers and a mythical aura.'',
     Loot_init ''Titanic Shark'' ''Legendary''
       ''An enormous shark that rules the oceans with unmatched strength.'',
     Loot_init ''Mystic Mermaid'' ''Legendary''
       ''A mythical mermaid with unparalleled beauty and magical abilities.''
    ]"

text \<open>
  The loop of \<open>fishing\<close> over the items of the table: \<open>cumulative_prob\<close> grows by each
  probability, and the loop breaks with the first rarity for which \<open>rand\<close> is below it.
  When the loop ends without a break, \<open>selected_rarity\<close> has never been assigned:
  \<open>None\<close>.
\<close>

fun select_rarity :: "(string \<times> rat) list \<Rightarrow> rat \<Rightarrow> rat \<Rightarrow> string option" where
  "select_rarity [] rand_value cumulative_prob = None"
| "select_rarity ((rarity_key, prob) # rest) rand_value cumulative_prob =
     (if rand_value < cumulative_prob + prob then Some rarity_key
      else select_rarity rest rand_value (cumulative_prob + prob))"

text \<open>
  \<open>fishing(catches)\<close>, with the table it reads from the module as a parameter in
  \<open>fishing_with\<close>. The assertion on the total comes first. The list comprehension reads
  \<open>selected_rarity\<close> once for each element of \<open>catches\<close>: with the name unassigned
  and a catalogue that is not empty, that read raises \<open>NameError\<close> (its subclass
  \<open>UnboundLocalError\<close>). The result \<open>Inr None\<close> is the return value \<open>None\<close> of the
  source.
\<close>

definition fishing_with ::
  "(string \<times> rat) list \<Rightarrow> Loot list \<Rightarrow> rat \<Rightarrow> nat \<Rightarrow> py_error + Loot option" where
  "fishing_with table catches rand_value pick_index =
    (let total_prob = sum_list (map snd table)
     in if \<not> (\<bar>total_prob - 1\<bar> < 1 / 1000000) then Inl AssertionError
        else
          (case select_rarity table rand_value 0 of
             None \<Rightarrow> (if catches = [] then Inr None else Inl NameError)
           | Some selected_rarity \<Rightarrow>
               (let filtered_catches = filter (\<lambda>loot. rarity loot = selected_rarity) catches
                in if filtered_catches \<noteq> []
                   then Inr (Some (filtered_catches ! (pick_index mod length filtered_catches)))
                   else Inr None)))"

definition fishing :: "Loot list \<Rightarrow> rat \<Rightarrow> nat \<Rightarrow> py_error + Loot option" where
  "fishing catches rand_value pick_index =
     fishing_with RARITY_PROBABILITIES catches rand_value pick_index"

section \<open>The fish command (core/bot.py)\<close>

text \<open>
  The random numbers of one run of the command, in the order in which the source draws
  them: \<open>random.random()\<close> and the index of \<open>random.choice\<close> in \<open>fishing\<close>, then the
  draws of \<open>weight_algo\<close>, \<open>xp_loot_algo\<close> and \<open>value_loot_algo\<close>.
\<close>

record draws =
  rand :: rat
  pick :: nat
  weight_draw :: rat
  xp_draw :: nat
  value_draw :: nat

text \<open>
  What the command answers: the embed with the catch, its weight, the gold and the XP
  earned, or the message that no catch is available.
\<close>

datatype outcome = Caught Loot rat int int | NoCatchAvailable

text \<open>
  The body of the command \<open>fish\<close>, with the catalogue it passes to \<open>fishing\<close> as a
  parameter in \<open>fish_on\<close>. The three rollers are called on \<open>catch\<close> before the test
  \<open>catch is not None\<close>: on \<open>None\<close> the first call raises \<open>AttributeError\<close>.
  \<open>catch_value\<close> is computed from \<open>xp_loot_algo\<close> and the weight, \<open>catch_xp\<close> is the
  result of \<open>value_loot_algo\<close>; the level grows by \<open>catch_xp\<close> and the money by
  \<open>catch_value\<close>.
\<close>

definition fish_on ::
  "Loot list \<Rightarrow> int \<Rightarrow> draws \<Rightarrow> players_file \<Rightarrow> py_error + (outcome \<times> players_file)" where
  "fish_on catches uid dr f =
    (let player_instance = Player_init uid 0 0 ''''
     in case fishing catches (rand dr) (pick dr) of
          Inl e \<Rightarrow> Inl e
        | Inr catch \<Rightarrow>
            (case catch of
               None \<Rightarrow> Inl AttributeError
             | Some c \<Rightarrow>
                 (let catch_weight = weight_algo c (weight_draw dr);
                      catch_value =
                        py_round ((of_int (xp_loot_algo c (xp_draw dr)) * catch_weight) / 2);
                      catch_xp = value_loot_algo c (value_draw dr)
                  in if catch \<noteq> None then
                       (let p1 = load_from_leaderboard player_instance f;
                            p2 = p1\<lparr>level := level p1 + catch_xp\<rparr>;
                            p3 = p2\<lparr>money := money p2 + catch_value\<rparr>;
                            p4 = level_check p3
                        in case save_to_leaderboard p4 f of
                             Inl e \<Rightarrow> Inl e
                           | Inr f' \<Rightarrow> Inr (Caught c catch_weight catch_value catch_xp, f'))
                     else Inr (NoCatchAvailable, f))))"

definition fish :: "int \<Rightarrow> draws \<Rightarrow> players_file \<Rightarrow> py_error + (outcome \<times> players_file)" where
  "fish uid dr f = fish_on CATCHES uid dr f"

section \<open>Rarity sampling as the specification words it\<close>



section \<open>Progression rules\<close>

text \<open>
  Claim C7. The league assigned by \<open>level_check\<close> is exact at the boundaries of the
  thresholds: level 0 gives Unranked, 999 Minnow, 1000 Guppy, 99999 Champion, 100000
  Legendary, and every level below zero gives Unranked.
\<close>

theorem level_check_boundaries:
  "league (level_check (p\<lparr>level := 0\<rparr>)) = ''Unranked''
   \<and> league (level_check (p\<lparr>level := 999\<rparr>)) = ''Minnow''
   \<and> league (level_check (p\<lparr>level := 1000\<rparr>)) = ''Guppy''
   \<and> league (level_check (p\<lparr>level := 99999\<rparr>)) = ''Champion''
   \<and> league (level_check (p\<lparr>level := 100000\<rparr>)) = ''Legendary''
   \<and> (\<forall>lv. lv < 0 \<longrightarrow> league (level_check (p\<lparr>level := lv\<rparr>)) = ''Unranked'')"
  by (simp add: level_check_def league_of_def)

theorem level_check_boundaries_witness:
  "league (level_check (Player_init 42 0 0 ''''\<lparr>level := - 5\<rparr>)) = ''Unranked''
   \<and> league (level_check (Player_init 42 0 0 ''''\<lparr>level := 999\<rparr>)) = ''Minnow''"
proof -
  have neg: "(- 5 :: int) < 0" by simp
  from level_check_boundaries [of "Player_init 42 0 0 ''''"] neg
  show ?thesis by blast
qed

section \<open>The constructor\<close>

text \<open>
  Claim C10. Whatever level argument the constructor of \<open>Player\<close> is given, the level of
  the constructed player is 0; the other three arguments are stored as given.
\<close>

theorem Player_init_discards_level:
  "level (Player_init uid m lvl lg) = 0
   \<and> user_id (Player_init uid m lvl lg) = uid
   \<and> money (Player_init uid m lvl lg) = m
   \<and> league (Player_init uid m lvl lg) = lg
   \<and> Player_init uid m lvl lg = Player_init uid m 0 lg"
  by (simp add: Player_init_def)

section \<open>The leaderboard operations\<close>

lemma find_user_None_iff: "find_user uid stats = None \<longleftrightarrow> uid \<notin> set (map user_id stats)"
  by (induction stats) auto

lemma reset_loop_absent: "uid \<notin> set (map user_id stats) \<Longrightarrow> reset_loop uid state stats = None"
  by (induction stats) auto

lemma reset_loop_invalid:
  "lower state \<noteq> ''money'' \<Longrightarrow> lower state \<noteq> ''level'' \<Longrightarrow> lower state \<noteq> ''levels''
   \<Longrightarrow> reset_loop uid state stats = None"
  by (induction stats) auto

lemma lower_money: "lower ''money'' = ''money''"
  by code_simp

lemma lower_level: "lower ''level'' = ''level''"
  by code_simp

lemma lower_xyz: "lower ''xyz'' = ''xyz''"
  by code_simp

text \<open>
  Claim C2, at the input where the code departs from it. Resetting the level of a player
  stored with level 5000 and league River succeeds and writes the entry with level 0 and
  the league still River, while the league of level 0 is Unranked: \<open>reset_fisher\<close> does
  not run the league computation that the fish command runs before it saves.
\<close>

theorem reset_level_keeps_league:
  "reset_fisher 1 ''level'' (Doc [\<lparr>user_id = 1, money = 10, level = 5000, league = ''River''\<rparr>])
     = (Some True, Doc [\<lparr>user_id = 1, money = 10, level = 0, league = ''River''\<rparr>])
   \<and> league_of 0 = ''Unranked''"
  by (simp add: reset_fisher_def lower_level league_of_def)

text \<open>
  Claim C4, as the code has it. Loading a player whose id no entry of the document carries
  (or with the file absent) never fails and leaves the freshly constructed player: money 0,
  level 0, and as league the empty string, which is the default of the constructor.
\<close>

theorem load_absent_default:
  "uid \<notin> set (map user_id stats) \<Longrightarrow>
     load_from_leaderboard (Player_init uid 0 0 '''') (Doc stats)
       = \<lparr>user_id = uid, money = 0, level = 0, league = ''''\<rparr>
     \<and> load_from_leaderboard (Player_init uid 0 0 '''') NoFile
       = \<lparr>user_id = uid, money = 0, level = 0, league = ''''\<rparr>"
  by (simp add: load_from_leaderboard_def Player_init_def find_user_None_iff [THEN iffD2])

theorem load_absent_default_witness:
  "load_from_leaderboard (Player_init 42 0 0 '''')
       (Doc [\<lparr>user_id = 7, money = 5, level = 1200, league = ''Guppy''\<rparr>])
     = \<lparr>user_id = 42, money = 0, level = 0, league = ''''\<rparr>"
  using load_absent_default [of 42 "[\<lparr>user_id = 7, money = 5, level = 1200, league = ''Guppy''\<rparr>]"]
  by simp

text \<open>
  The claim as the specification states it fails on the empty ledger: the league of the
  loaded player 42 is not Unranked.
\<close>

theorem load_absent_rank_counterexample:
  "league (load_from_leaderboard (Player_init 42 0 0 '''') (Doc [])) \<noteq> ''Unranked''"
  by (simp add: load_from_leaderboard_def Player_init_def)

text \<open>
  Claim C6, as the code has it. \<open>reset_fisher\<close> has one failure result: for an id that
  no entry carries and the state money it returns \<open>None\<close>, and for an id that is present
  and a state that is, in lower case, none of money, level and levels it returns
  \<open>None\<close> as well; the document is unchanged in both.
\<close>

theorem reset_fisher_failures_alike:
  "(uid \<notin> set (map user_id stats) \<longrightarrow>
      reset_fisher uid ''money'' (Doc stats) = (None, Doc stats))
   \<and> (uid \<in> set (map user_id stats) \<and> lower state \<notin> set [''money'', ''level'', ''levels''] \<longrightarrow>
      reset_fisher uid state (Doc stats) = (None, Doc stats))"
  by (simp add: reset_fisher_def reset_loop_absent reset_loop_invalid)

theorem reset_fisher_failures_alike_witness:
  "reset_fisher 7 ''money'' (Doc [\<lparr>user_id = 1, money = 10, level = 5000, league = ''River''\<rparr>])
     = (None, Doc [\<lparr>user_id = 1, money = 10, level = 5000, league = ''River''\<rparr>])
   \<and> reset_fisher 1 ''xyz'' (Doc [\<lparr>user_id = 1, money = 10, level = 5000, league = ''River''\<rparr>])
     = (None, Doc [\<lparr>user_id = 1, money = 10, level = 5000, league = ''River''\<rparr>])"
  using
    reset_fisher_failures_alike
      [of 7 "[\<lparr>user_id = 1, money = 10, level = 5000, league = ''River''\<rparr>]" "''xyz''"]
    reset_fisher_failures_alike
      [of 1 "[\<lparr>user_id = 1, money = 10, level = 5000, league = ''River''\<rparr>]" "''xyz''"]
  by (simp add: lower_xyz)

text \<open>
  The claim as the specification states it fails: the absent id with the state money and
  the present id with the state xyz give the same result, so the two failures cannot be
  told apart; and the state level, which is outside money and experience, is accepted.
\<close>

theorem reset_fisher_same_failure_counterexample:
  "fst (reset_fisher 7 ''money'' (Doc [\<lparr>user_id = 1, money = 10, level = 5000, league = ''River''\<rparr>]))
   = fst (reset_fisher 1 ''xyz'' (Doc [\<lparr>user_id = 1, money = 10, level = 5000, league = ''River''\<rparr>]))
   \<and> fst (reset_fisher 1 ''level'' (Doc [\<lparr>user_id = 1, money = 10, level = 5000, league = ''River''\<rparr>]))
     = Some True"
  by (simp add: reset_fisher_def lower_xyz lower_money lower_level)

text \<open>
  Claim C9, as the code has it. On a file that holds a decodable document,
  \<open>delete_all_players\<close> succeeds and leaves the empty array, and a second call right
  after it does the same. On an absent file, and on one that does not decode, it returns
  \<open>None\<close> and leaves the file as it was.
\<close>

theorem delete_all_players_twice:
  "delete_all_players (Doc stats) = (Some True, Doc [])
   \<and> delete_all_players (snd (delete_all_players (Doc stats))) = (Some True, Doc [])
   \<and> delete_all_players NoFile = (None, NoFile)
   \<and> delete_all_players BadJSON = (None, BadJSON)"
  by (simp add: delete_all_players_def)

text \<open>
  The claim as the specification states it fails when the document is absent: the call
  does not succeed, and it does not create the empty document.
\<close>

theorem delete_all_players_absent_counterexample:
  "fst (delete_all_players NoFile) \<noteq> Some True \<and> snd (delete_all_players NoFile) \<noteq> Doc []"
  by (simp add: delete_all_players_def)

section \<open>Loot rolls\<close>

lemma randint_bounds: "a \<le> b \<Longrightarrow> a \<le> randint a b u \<and> randint a b u \<le> b"
proof -
  assume ab: "a \<le> b"
  then have pos: "0 < nat (b - a + 1)" by simp
  have "u mod nat (b - a + 1) < nat (b - a + 1)" using pos by (rule mod_less_divisor)
  then have "int (u mod nat (b - a + 1)) < b - a + 1" using ab by linarith
  then show ?thesis by (simp add: randint_def)
qed

lemma py_round_lower: "of_int a \<le> x \<Longrightarrow> a \<le> py_round x"
proof -
  assume "of_int a \<le> x"
  then have "a \<le> \<lfloor>x\<rfloor>" by (simp add: le_floor_iff)
  then show ?thesis by (simp add: py_round_def Let_def)
qed

lemma py_round_upper: "x \<le> of_int b \<Longrightarrow> py_round x \<le> b"
proof (cases "x = of_int b")
  case True
  then show ?thesis by (simp add: py_round_def)
next
  case False
  assume "x \<le> of_int b"
  with False have "x < of_int b" by simp
  then have "\<lfloor>x\<rfloor> < b" by (simp add: floor_less_iff)
  then show ?thesis by (simp add: py_round_def Let_def)
qed

lemma py_round_zero: "py_round 0 = 0"
  by (simp add: py_round_def)

lemma py_round2_bounds:
  assumes "of_int a / 100 \<le> x" and "x \<le> of_int b / 100"
  shows "of_int a / 100 \<le> py_round2 x \<and> py_round2 x \<le> of_int b / 100"
proof -
  have "of_int a \<le> x * 100" using assms(1) by (simp add: field_simps)
  then have lo: "a \<le> py_round (x * 100)" by (rule py_round_lower)
  have "x * 100 \<le> of_int b" using assms(2) by (simp add: field_simps)
  then have hi: "py_round (x * 100) \<le> b" by (rule py_round_upper)
  from lo hi show ?thesis by (simp add: py_round2_def divide_le_cancel)
qed

lemma uniform_bounds:
  "a \<le> b \<Longrightarrow> 0 \<le> r \<Longrightarrow> r < 1 \<Longrightarrow> a \<le> uniform a b r \<and> uniform a b r \<le> b"
proof -
  assume ab: "a \<le> b" and r0: "0 \<le> r" and r1: "r < 1"
  have "0 \<le> (b - a) * r" using ab r0 by simp
  moreover have "(b - a) * r \<le> (b - a) * 1" using ab r1 by (intro mult_left_mono) simp_all
  ultimately show ?thesis by (simp add: uniform_def)
qed

text \<open>
  Claim C8. For a loot of rarity Trash the XP roll is 0 whatever is drawn, and so is the
  reward computed from it and the weight. For a loot of rarity Legendary the value roll
  lies in [5001, 10000] and the XP roll in [3501, 5000] for every raw draw, and the
  weight lies in [50.10, 60.00] for every draw of \<open>random()\<close> in [0, 1).
\<close>

theorem roll_bounds:
  "(rarity l = ''Trash'' \<longrightarrow>
      xp_loot_algo l u = 0
      \<and> py_round ((of_int (xp_loot_algo l u) * weight_algo l r) / 2) = 0)
   \<and> (rarity l = ''Legendary'' \<longrightarrow>
      5001 \<le> value_loot_algo l v \<and> value_loot_algo l v \<le> 10000
      \<and> 3501 \<le> xp_loot_algo l u \<and> xp_loot_algo l u \<le> 5000
      \<and> (0 \<le> r \<and> r < 1 \<longrightarrow> 501 / 10 \<le> weight_algo l r \<and> weight_algo l r \<le> 60))"
proof -
  have w: "501 / 10 \<le> py_round2 (uniform (501 / 10) 60 r)
           \<and> py_round2 (uniform (501 / 10) 60 r) \<le> 60"
    if "0 \<le> r" "r < 1"
  proof -
    have u: "501 / 10 \<le> uniform (501 / 10) 60 r \<and> uniform (501 / 10) 60 r \<le> 60"
      using uniform_bounds [of "501 / 10" 60 r] that by simp
    show ?thesis using py_round2_bounds [of 5010 "uniform (501 / 10) 60 r" 6000] u by simp
  qed
  show ?thesis
    using randint_bounds [of 5001 10000 v] randint_bounds [of 3501 5000 u] w
    by (simp add: value_loot_algo_def xp_loot_algo_def weight_algo_def py_round_zero)
qed

theorem roll_bounds_witness:
  "xp_loot_algo (Loot_init ''Old Shoe'' ''Trash'' '''') 777 = 0
   \<and> py_round ((of_int (xp_loot_algo (Loot_init ''Old Shoe'' ''Trash'' '''') 777)
         * weight_algo (Loot_init ''Old Shoe'' ''Trash'' '''') (999 / 1000)) / 2) = 0
   \<and> 5001 \<le> value_loot_algo (Loot_init ''Dragonfish'' ''Legendary'' '''') 123456
   \<and> value_loot_algo (Loot_init ''Dragonfish'' ''Legendary'' '''') 123456 \<le> 10000
   \<and> 3501 \<le> xp_loot_algo (Loot_init ''Dragonfish'' ''Legendary'' '''') 777
   \<and> xp_loot_algo (Loot_init ''Dragonfish'' ''Legendary'' '''') 777 \<le> 5000
   \<and> 501 / 10 \<le> weight_algo (Loot_init ''Dragonfish'' ''Legendary'' '''') (999 / 1000)
   \<and> weight_algo (Loot_init ''Dragonfish'' ''Legendary'' '''') (999 / 1000) \<le> 60"
proof -
  have t: "rarity (Loot_init ''Old Shoe'' ''Trash'' '''') = ''Trash''"
    by (simp add: Loot_init_def)
  have g: "rarity (Loot_init ''Dragonfish'' ''Legendary'' '''') = ''Legendary''"
    by (simp add: Loot_init_def)
  have r: "(0 :: rat) \<le> 999 / 1000 \<and> (999 / 1000 :: rat) < 1"
    by simp
  from roll_bounds [of "Loot_init ''Old Shoe'' ''Trash'' ''''" 777 "999 / 1000" 123456]
    roll_bounds [of "Loot_init ''Dragonfish'' ''Legendary'' ''''" 777 "999 / 1000" 123456]
    t g r
  show ?thesis by blast
qed

section \<open>Rarity sampling\<close>







section \<open>The fish command\<close>

text \<open>
  Claim C1, at the input where the code departs from it. On a fresh ledger player 42
  catches a Common loot (the Goldfish) whose XP roll is 80, whose weight is 3.00 and whose
  value roll is 25. The money credited is round(80 * 3.0 / 2) = 120, and the level
  credited is 25, the value roll, not the XP roll 80: the stored entry has money 120,
  level 25 and league Minnow.
\<close>

theorem fish_credits_value_roll_as_xp:
  "xp_loot_algo (Loot_init ''Goldfish'' ''Common''
       ''A small, shiny goldfish. Commonly found in ponds.'') 30 = 80
   \<and> weight_algo (Loot_init ''Goldfish'' ''Common''
       ''A small, shiny goldfish. Commonly found in ponds.'') (1 / 2) = 3
   \<and> value_loot_algo (Loot_init ''Goldfish'' ''Common''
       ''A small, shiny goldfish. Commonly found in ponds.'') 15 = 25
   \<and> fish 42 \<lparr>rand = 3 / 10, pick = 0, weight_draw = 1 / 2, xp_draw = 30, value_draw = 15\<rparr>
        NoFile
     = Inr (Caught (Loot_init ''Goldfish'' ''Common''
                      ''A small, shiny goldfish. Commonly found in ponds.'') 3 120 25,
            Doc [\<lparr>user_id = 42, money = 120, level = 25, league = ''Minnow''\<rparr>])"
  by code_simp


end
